theory Spec2Isabelle
  imports
    Complex_Main
    "HOL-Library.Sublist"
    "HOL-Library.Multiset"
    "HOL-Library.List_Lexorder"
    "HOL-Library.Char_ord"
    "HOL-Library.Product_Lexorder"
begin

section \<open>Python values and exceptions\<close>

text \<open>
  The importer is Python. Its strings are modelled as \<^typ>\<open>string\<close> (lists of characters,
  compared by character code as Python compares by code point; paths and names are taken
  to be ASCII, so a digit is one of \<open>0\<close> to \<open>9\<close>), its unbounded integers
  as \<^typ>\<open>int\<close>, its tuples of integers as \<^typ>\<open>int list\<close> (compared lexicographically,
  a proper prefix first, as Python compares tuples). An exception is a value of
  \<open>py_error\<close>; a function that can raise returns \<open>py_error + 'a\<close>, with \<open>Inl\<close> the
  exception. \<open>exit(1)\<close> raises \<open>SystemExit 1\<close>, which ends the interpreter.
\<close>

datatype py_error =
    IndexError
  | ValueError
  | AttributeError
  | KeyError
  | TypeError
  | OSError
  | JSONDecodeError
  | SystemExit int

definition py_bind :: "py_error + 'a \<Rightarrow> ('a \<Rightarrow> py_error + 'b) \<Rightarrow> py_error + 'b" where
  "py_bind m f = (case m of Inl e \<Rightarrow> Inl e | Inr x \<Rightarrow> f x)"

text \<open>\<open>xs[i]\<close>: a negative index counts from the end, an index out of range raises.\<close>

definition py_index :: "'a list \<Rightarrow> int \<Rightarrow> py_error + 'a" where
  "py_index xs i =
     (if 0 \<le> i \<and> i < int (length xs) then Inr (xs ! nat i)
      else if i < 0 \<and> - int (length xs) \<le> i then Inr (xs ! nat (int (length xs) + i))
      else Inl IndexError)"

text \<open>\<open>xs[0:k]\<close> and \<open>xs[k:]\<close>: a negative bound counts from the end, and bounds are clipped.\<close>

definition slice_upto :: "'a list \<Rightarrow> int \<Rightarrow> 'a list" where
  "slice_upto xs k = (if k < 0 then take (nat (int (length xs) + k)) xs else take (nat k) xs)"

definition slice_from :: "'a list \<Rightarrow> int \<Rightarrow> 'a list" where
  "slice_from xs k = (if k < 0 then drop (nat (int (length xs) + k)) xs else drop (nat k) xs)"

text \<open>\<open>xs[a:b]\<close> for indices that are not negative.\<close>

definition py_slice :: "'a list \<Rightarrow> nat \<Rightarrow> nat \<Rightarrow> 'a list" where
  "py_slice xs a b = drop a (take b xs)"

text \<open>\<open>s.find(c)\<close> for a one-character \<open>c\<close>: the first index of \<open>c\<close>, or \<open>-1\<close>.\<close>

fun str_find :: "char \<Rightarrow> string \<Rightarrow> int" where
  "str_find c [] = - 1"
| "str_find c (x # xs) =
     (if x = c then 0 else (let r = str_find c xs in if r = - 1 then - 1 else r + 1))"

text \<open>\<open>a in b\<close> on strings: \<open>a\<close> occurs in \<open>b\<close> as a contiguous substring.\<close>

fun py_in_str :: "string \<Rightarrow> string \<Rightarrow> bool" where
  "py_in_str a [] = (a = [])"
| "py_in_str a (c # cs) = (prefix a (c # cs) \<or> py_in_str a cs)"

section \<open>helpers.py\<close>

subsection \<open>\<open>get_clean_name\<close>\<close>

definition get_clean_name :: "string \<Rightarrow> string" where
  "get_clean_name name =
     (let idx1 = str_find (CHR ''('') name;
          idx2 = str_find (CHR ''-'') name;
          delete_idx =
            (if idx1 \<noteq> - 1 \<or> idx2 \<noteq> - 1
             then (if min idx1 idx2 > 0 then min idx1 idx2 else max idx1 idx2)
             else int (length name))
      in slice_upto name delete_idx)"

subsection \<open>\<open>file_crawler\<close>\<close>

text \<open>
  \<open>re.findall(r'\d+', path)\<close>: the maximal runs of decimal digits of \<open>path\<close>, from left to
  right. The first argument is the run being read.
\<close>

definition is_digit :: "char \<Rightarrow> bool" where
  "is_digit c = (c \<in> set ''0123456789'')"

fun findall_digits :: "string \<Rightarrow> string \<Rightarrow> string list" where
  "findall_digits run [] = (if run = [] then [] else [run])"
| "findall_digits run (c # cs) =
     (if is_digit c then findall_digits (run @ [c]) cs
      else if run = [] then findall_digits [] cs
      else run # findall_digits [] cs)"

text \<open>\<open>int(s)\<close> on a run of decimal digits.\<close>

definition int_of_digits :: "string \<Rightarrow> int" where
  "int_of_digits s = foldl (\<lambda>n c. 10 * n + (int (of_char c) - 48)) 0 s"

text \<open>\<open>tuple(int(s) for s in re.findall(r'\d+', path))\<close>\<close>

definition part_scene_number :: "string \<Rightarrow> int list" where
  "part_scene_number path = map int_of_digits (findall_digits [] path)"

text \<open>\<open>os.path.join(path, name)\<close>, as \<open>posixpath\<close> joins two components.\<close>

definition path_join :: "string \<Rightarrow> string \<Rightarrow> string" where
  "path_join a b =
     (if prefix ''/'' b then b
      else if a = [] \<or> suffix ''/'' a then a @ b
      else a @ ''/'' @ b)"

text \<open>
  The test \<open>uniq_seqs and (part_scene_number[1] != 1 or part_scene_number[0] < 26)\<close>,
  evaluated from left to right: \<open>part_scene_number[1]\<close> raises where the tuple has fewer
  than two components.
\<close>

definition skip_entry :: "bool \<Rightarrow> int list \<Rightarrow> py_error + bool" where
  "skip_entry uniq_seqs psn =
     (if uniq_seqs
      then py_bind (py_index psn 1) (\<lambda>scene.
             if scene \<noteq> 1 then Inr True
             else py_bind (py_index psn 0) (\<lambda>part. Inr (part < 26)))
      else Inr False)"

text \<open>
  The inner loop over the files of one directory and the outer loop over what \<open>os.walk\<close>
  yields: triples (path, subdirs, files). The state is the pair of lists
  \<open>all_file_paths\<close>, \<open>part_scene_nums\<close>.
\<close>

fun crawl_files ::
  "string \<Rightarrow> bool \<Rightarrow> string \<Rightarrow> string list \<Rightarrow> string list \<times> int list list
   \<Rightarrow> py_error + (string list \<times> int list list)" where
  "crawl_files target_filename uniq_seqs path [] acc = Inr acc"
| "crawl_files target_filename uniq_seqs path (name # files) (all_file_paths, part_scene_nums) =
     (if py_in_str target_filename name
      then (case skip_entry uniq_seqs (part_scene_number path) of
              Inl e \<Rightarrow> Inl e
            | Inr skip \<Rightarrow>
                if skip
                then crawl_files target_filename uniq_seqs path files
                       (all_file_paths, part_scene_nums)
                else crawl_files target_filename uniq_seqs path files
                       (all_file_paths @ [path_join path name],
                        part_scene_nums @ [part_scene_number path]))
      else crawl_files target_filename uniq_seqs path files (all_file_paths, part_scene_nums))"

fun crawl_walk ::
  "string \<Rightarrow> bool \<Rightarrow> (string \<times> string list \<times> string list) list
   \<Rightarrow> string list \<times> int list list \<Rightarrow> py_error + (string list \<times> int list list)" where
  "crawl_walk target_filename uniq_seqs [] acc = Inr acc"
| "crawl_walk target_filename uniq_seqs ((path, subdirs, files) # rest) acc =
     (case crawl_files target_filename uniq_seqs path files acc of
        Inl e \<Rightarrow> Inl e
      | Inr acc' \<Rightarrow> crawl_walk target_filename uniq_seqs rest acc')"

text \<open>
  \<open>file_crawler\<close>. Its first argument is \<open>os.walk\<close>: the directory tree, as the list of
  triples the walk of a root folder yields. \<open>sorted\<close> on a list of tuples is \<open>sort\<close> for
  the lexicographic order of pairs; the second \<open>zip\<close> reads the list of paths the line
  before has already sorted.
\<close>

definition file_crawler ::
  "(string \<Rightarrow> (string \<times> string list \<times> string list) list) \<Rightarrow> string \<Rightarrow> string \<Rightarrow> bool
   \<Rightarrow> py_error + (string list \<times> int list list)" where
  "file_crawler os_walk root_folder target_filename uniq_seqs =
     (case crawl_walk target_filename uniq_seqs (os_walk root_folder) ([], []) of
        Inl e \<Rightarrow> Inl e
      | Inr (all_file_paths, part_scene_nums) \<Rightarrow>
          (let sorted_paths = map snd (sort (zip part_scene_nums all_file_paths));
               sorted_nums = map fst (sort (zip part_scene_nums sorted_paths))
           in Inr (sorted_paths, sorted_nums)))"

section \<open>boxed_importer.py\<close>

subsection \<open>The data model\<close>

text \<open>
  The classes, as records; a subclass extends the record of its parent. A field that the
  constructor sets to \<open>None\<close> and the call right after it fills (\<open>name\<close>, \<open>unique_id\<close>,
  the poses, \<open>scene_num\<close>, \<open>part_num\<close>) has its filled type, and the constructor and that
  call are one function below. Fields have the types the source annotates: a rotation is
  a list of lists of numbers, a translation a list of numbers, a time stamp an integer.
\<close>

record pose =
  rotation :: "real list list"
  translation :: "real list"

record pose_with_time = pose +
  time_stamp :: int

record obj =
  name :: string
  unique_id :: int
  pick_pose :: pose
  place_pose :: pose

record obj_with_traj = obj +
  trajectory :: "pose_with_time list"

record scene =
  scene_num :: int
  initial_objs :: "string list"
  objs_info :: "obj_with_traj list"
  cam_traj :: "pose_with_time list"

record participant =
  part_num :: int
  scenes :: "scene list"

record boxed =
  participants :: "participant list"
  root_folder :: string
  load_cam_traj :: bool

subsection \<open>Files and builtins\<close>

text \<open>
  What \<open>json.load\<close> returns for a file of the dataset: a list of dicts. An element of a
  PickPlace file has the keys \<open>id\<close>, \<open>pickRotation\<close>, \<open>pickTranslation\<close>, \<open>placeRotation\<close>,
  \<open>placeTranslation\<close>; an element of a trajectory file has the keys \<open>rotation\<close>,
  \<open>translation\<close>, \<open>timeStamp\<close>.
\<close>

record pickplace_entry =
  json_id :: string
  json_pickRotation :: "real list list"
  json_pickTranslation :: "real list"
  json_placeRotation :: "real list list"
  json_placeTranslation :: "real list"

record trajectory_entry =
  json_rotation :: "real list list"
  json_translation :: "real list"
  json_timeStamp :: int

text \<open>
  The world outside the importer: the directory tree (\<open>os.walk\<close>, \<open>path.exists\<close>,
  \<open>path.isdir\<close>), the files' contents (\<open>open\<close> and \<open>json.load\<close> on a path, \<open>Inl\<close> when
  they raise or the content has not the shape above), Python's \<open>int\<close> on a string, and
  the two places where what numpy does depends on its version or on floating point:
  \<open>np.asarray(xs) == n\<close> when one of the numbers does not fit a signed 64-bit integer
  (\<open>np_equal_wide\<close>), and \<open>np.asarray\<close> on a list of lists of unequal lengths
  (\<open>asarray_ragged\<close>).
\<close>

record env =
  os_walk :: "string \<Rightarrow> (string \<times> string list \<times> string list) list"
  path_exists :: "string \<Rightarrow> bool"
  path_isdir :: "string \<Rightarrow> bool"
  load_pickplace :: "string \<Rightarrow> py_error + pickplace_entry list"
  load_trajectory :: "string \<Rightarrow> py_error + trajectory_entry list"
  py_int :: "string \<Rightarrow> py_error + int"
  np_equal_wide :: "int list \<Rightarrow> int \<Rightarrow> py_error + bool list"
  asarray_ragged :: "real list list \<Rightarrow> py_error + real list list"

text \<open>
  \<open>np.asarray(xs) == n\<close> for a list \<open>xs\<close> of Python integers and a Python integer \<open>n\<close>.
  When every number fits a signed 64-bit integer the array holds the numbers themselves
  and the comparison is elementwise and exact (the empty list gives the empty array).
  Otherwise the array is of unsigned, floating or object type by the numbers in it, and
  the result is the world's.
\<close>

definition fits_int64 :: "int \<Rightarrow> bool" where
  "fits_int64 n = (- (2 ^ 63) \<le> n \<and> n < 2 ^ 63)"

definition np_equal :: "env \<Rightarrow> int list \<Rightarrow> int \<Rightarrow> py_error + bool list" where
  "np_equal E xs n =
     (if list_all fits_int64 xs \<and> fits_int64 n then Inr (map (\<lambda>x. x = n) xs)
      else np_equal_wide E xs n)"

text \<open>
  \<open>np.asarray(m)\<close> for a list of lists of floats: the array stores the numbers when the
  inner lists have one length; otherwise the result is the world's (a \<open>ValueError\<close> with
  current numpy). On a flat list of floats \<open>np.asarray\<close> stores the numbers.
\<close>

definition rectangular :: "'a list list \<Rightarrow> bool" where
  "rectangular m = list_all (\<lambda>row. length row = length (hd m)) m"

definition np_asarray :: "env \<Rightarrow> real list list \<Rightarrow> py_error + real list list" where
  "np_asarray E m = (if rectangular m then Inr m else asarray_ragged E m)"

text \<open>
  Subscripting a dict by one of its keys returns the value stored there. Reading an
  attribute named as a key raises: a dict has no attribute \<open>rotation\<close>, \<open>translation\<close>
  or \<open>timeStamp\<close>.
\<close>

definition dict_getitem :: "'d \<Rightarrow> ('d \<Rightarrow> 'v) \<Rightarrow> py_error + 'v" where
  "dict_getitem d key = Inr (key d)"

definition dict_getattr :: "'d \<Rightarrow> ('d \<Rightarrow> 'v) \<Rightarrow> py_error + 'v" where
  "dict_getattr d key = Inl AttributeError"

text \<open>\<open>xs.index(x)\<close>: the first index of \<open>x\<close>, \<open>ValueError\<close> when there is none.\<close>

fun list_index :: "'a list \<Rightarrow> 'a \<Rightarrow> py_error + int" where
  "list_index [] x = Inl ValueError"
| "list_index (y # ys) x =
     (if y = x then Inr 0 else py_bind (list_index ys x) (\<lambda>i. Inr (i + 1)))"

text \<open>A list comprehension \<open>[f(x) for x in xs]\<close> whose \<open>f\<close> can raise.\<close>

fun map_raising :: "('a \<Rightarrow> py_error + 'b) \<Rightarrow> 'a list \<Rightarrow> py_error + 'b list" where
  "map_raising f [] = Inr []"
| "map_raising f (x # xs) =
     (case f x of
        Inl e \<Rightarrow> Inl e
      | Inr y \<Rightarrow> (case map_raising f xs of Inl e \<Rightarrow> Inl e | Inr ys \<Rightarrow> Inr (y # ys)))"

subsection \<open>\<open>Pose\<close>, \<open>PoseWithTime\<close>, \<open>Obj\<close>, \<open>ObjWithTraj\<close>\<close>

definition Pose :: "env \<Rightarrow> real list list \<Rightarrow> real list \<Rightarrow> py_error + pose" where
  "Pose E rot tra =
     py_bind (np_asarray E rot) (\<lambda>r. Inr \<lparr>rotation = r, translation = tra\<rparr>)"

definition PoseWithTime ::
  "env \<Rightarrow> real list list \<Rightarrow> real list \<Rightarrow> int \<Rightarrow> py_error + pose_with_time" where
  "PoseWithTime E rot tra t =
     py_bind (np_asarray E rot) (\<lambda>r.
       Inr \<lparr>rotation = r, translation = tra, time_stamp = t\<rparr>)"

text \<open>\<open>ObjWithTraj()\<close> followed by \<open>add_obj_info\<close>; \<open>raw[-4:]\<close> is \<open>slice_from raw (-4)\<close>.\<close>

definition add_obj_info ::
  "env \<Rightarrow> string \<Rightarrow> real list list \<Rightarrow> real list \<Rightarrow> real list list \<Rightarrow> real list
   \<Rightarrow> py_error + obj_with_traj" where
  "add_obj_info E raw pick_rot pick_trans place_rot place_trans =
     py_bind (py_int E (slice_from raw (- 4))) (\<lambda>uid.
     py_bind (Pose E pick_rot pick_trans) (\<lambda>pick.
     py_bind (Pose E place_rot place_trans) (\<lambda>place.
       Inr \<lparr>name = get_clean_name raw, unique_id = uid,
            pick_pose = pick, place_pose = place, trajectory = []\<rparr>)))"

text \<open>\<open>ObjWithTraj.add_traj\<close>: the loop appends one \<open>PoseWithTime\<close> per element.\<close>

fun add_traj_loop ::
  "env \<Rightarrow> trajectory_entry list \<Rightarrow> pose_with_time list \<Rightarrow> py_error + pose_with_time list" where
  "add_traj_loop E [] traj = Inr traj"
| "add_traj_loop E (pose_time # data) traj =
     py_bind (dict_getitem pose_time json_rotation) (\<lambda>rot.
     py_bind (dict_getitem pose_time json_translation) (\<lambda>tra.
     py_bind (dict_getitem pose_time json_timeStamp) (\<lambda>t.
     py_bind (PoseWithTime E rot tra t) (\<lambda>new_pose.
       add_traj_loop E data (traj @ [new_pose])))))"

definition add_traj :: "env \<Rightarrow> obj_with_traj \<Rightarrow> string \<Rightarrow> py_error + obj_with_traj" where
  "add_traj E ob traj_file =
     py_bind (load_trajectory E traj_file) (\<lambda>data.
     py_bind (add_traj_loop E data (trajectory ob)) (\<lambda>traj.
       Inr (ob\<lparr>trajectory := traj\<rparr>)))"

subsection \<open>\<open>Scene\<close>\<close>

text \<open>\<open>Scene()\<close> followed by \<open>add_objects\<close>.\<close>

fun scene_add_objects_loop ::
  "env \<Rightarrow> pickplace_entry list \<Rightarrow> obj_with_traj list \<Rightarrow> py_error + obj_with_traj list" where
  "scene_add_objects_loop E [] objs = Inr objs"
| "scene_add_objects_loop E (obj_data # data) objs =
     (case add_obj_info E (json_id obj_data) (json_pickRotation obj_data)
             (json_pickTranslation obj_data) (json_placeRotation obj_data)
             (json_placeTranslation obj_data) of
        Inl e \<Rightarrow> Inl e
      | Inr new_obj \<Rightarrow> scene_add_objects_loop E data (objs @ [new_obj]))"

definition scene_add_objects :: "env \<Rightarrow> string \<Rightarrow> int \<Rightarrow> py_error + scene" where
  "scene_add_objects E scene_file scene_number =
     py_bind (load_pickplace E scene_file) (\<lambda>data.
     py_bind (scene_add_objects_loop E data []) (\<lambda>objs.
       Inr \<lparr>scene_num = scene_number, initial_objs = [], objs_info = objs, cam_traj = []\<rparr>))"

text \<open>
  \<open>Scene.add_obj_traj\<close>: for each object, the inner loop stops at the first file whose
  path contains the object's name. The list of files is the same for every object.
\<close>

fun add_obj_traj_files :: "env \<Rightarrow> obj_with_traj \<Rightarrow> string list \<Rightarrow> py_error + obj_with_traj" where
  "add_obj_traj_files E ob [] = Inr ob"
| "add_obj_traj_files E ob (file # files) =
     (if py_in_str (name ob) file then add_traj E ob file
      else add_obj_traj_files E ob files)"

fun add_obj_traj_objs ::
  "env \<Rightarrow> string list \<Rightarrow> obj_with_traj list \<Rightarrow> py_error + obj_with_traj list" where
  "add_obj_traj_objs E scene_files [] = Inr []"
| "add_obj_traj_objs E scene_files (ob # obs) =
     (case add_obj_traj_files E ob scene_files of
        Inl e \<Rightarrow> Inl e
      | Inr ob' \<Rightarrow>
          (case add_obj_traj_objs E scene_files obs of
             Inl e \<Rightarrow> Inl e
           | Inr obs' \<Rightarrow> Inr (ob' # obs')))"

definition add_obj_traj :: "env \<Rightarrow> scene \<Rightarrow> string list \<Rightarrow> py_error + scene" where
  "add_obj_traj E sc scene_files =
     py_bind (add_obj_traj_objs E scene_files (objs_info sc)) (\<lambda>objs.
       Inr (sc\<lparr>objs_info := objs\<rparr>))"

text \<open>
  \<open>Scene.add_cam_traj\<close>: the loop reads \<open>cam_pose_time.rotation\<close>, an attribute of a dict,
  where \<open>add_traj\<close> reads \<open>pose_time['rotation']\<close>.
\<close>

fun add_cam_traj_loop ::
  "env \<Rightarrow> trajectory_entry list \<Rightarrow> pose_with_time list \<Rightarrow> py_error + pose_with_time list" where
  "add_cam_traj_loop E [] traj = Inr traj"
| "add_cam_traj_loop E (cam_pose_time # data) traj =
     py_bind (dict_getattr cam_pose_time json_rotation) (\<lambda>rot.
     py_bind (dict_getattr cam_pose_time json_translation) (\<lambda>tra.
     py_bind (dict_getattr cam_pose_time json_timeStamp) (\<lambda>t.
     py_bind (PoseWithTime E rot tra t) (\<lambda>new_pose.
       add_cam_traj_loop E data (traj @ [new_pose])))))"

definition add_cam_traj :: "env \<Rightarrow> scene \<Rightarrow> string \<Rightarrow> py_error + scene" where
  "add_cam_traj E sc cam_traj_file =
     py_bind (load_trajectory E cam_traj_file) (\<lambda>data.
     py_bind (add_cam_traj_loop E data (cam_traj sc)) (\<lambda>traj.
       Inr (sc\<lparr>cam_traj := traj\<rparr>)))"

subsection \<open>\<open>Participant\<close>\<close>

text \<open>\<open>Participant()\<close> followed by \<open>add_objects\<close>; the loop runs over the zipped lists.\<close>

fun participant_add_objects_loop ::
  "env \<Rightarrow> (int list \<times> string) list \<Rightarrow> scene list \<Rightarrow> py_error + scene list" where
  "participant_add_objects_loop E [] scs = Inr scs"
| "participant_add_objects_loop E ((part_scene_num, part_file) # rest) scs =
     (case py_bind (py_index part_scene_num 1) (scene_add_objects E part_file) of
        Inl e \<Rightarrow> Inl e
      | Inr new_scene \<Rightarrow> participant_add_objects_loop E rest (scs @ [new_scene]))"

definition participant_add_objects ::
  "env \<Rightarrow> string list \<Rightarrow> int list list \<Rightarrow> py_error + participant" where
  "participant_add_objects E part_files part_scene_nums =
     py_bind (py_bind (py_index part_scene_nums 0) (\<lambda>t. py_index t 0)) (\<lambda>pn.
     py_bind (participant_add_objects_loop E (zip part_scene_nums part_files) []) (\<lambda>scs.
       Inr \<lparr>part_num = pn, scenes = scs\<rparr>))"

text \<open>
  \<open>Participant.add_trajectories\<close>. \<open>cam\<close> is \<open>None\<close> when the two optional arguments are
  left out, and the pair (\<open>cam_part_files\<close>, \<open>cam_part_scene_nums\<close>) otherwise. The
  comparison of the array \<open>aux_scene_nums\<close> with the scene's number is numpy's.
\<close>

definition scene_files_of ::
  "env \<Rightarrow> string list \<Rightarrow> int list \<Rightarrow> int \<Rightarrow> py_error + string list" where
  "scene_files_of E part_files aux_scene_nums n =
     py_bind (np_equal E aux_scene_nums n) (\<lambda>sel.
       Inr (map fst (filter snd (zip part_files sel))))"

fun add_trajectories_loop ::
  "env \<Rightarrow> int \<Rightarrow> string list \<Rightarrow> int list \<Rightarrow> (string list \<times> int list list) option
   \<Rightarrow> scene list \<Rightarrow> py_error + scene list" where
  "add_trajectories_loop E pn part_files aux_scene_nums cam [] = Inr []"
| "add_trajectories_loop E pn part_files aux_scene_nums cam (sc # scs) =
     (case py_bind (scene_files_of E part_files aux_scene_nums (scene_num sc)) (\<lambda>scene_files.
           py_bind (add_obj_traj E sc scene_files)
             (\<lambda>sc1.
               case cam of
                 None \<Rightarrow> Inr sc1
               | Some (cam_part_files, cam_part_scene_nums) \<Rightarrow>
                   py_bind (list_index cam_part_scene_nums [pn, scene_num sc1]) (\<lambda>i.
                   py_bind (py_index cam_part_files i) (add_cam_traj E sc1)))) of
        Inl e \<Rightarrow> Inl e
      | Inr sc' \<Rightarrow>
          (case add_trajectories_loop E pn part_files aux_scene_nums cam scs of
             Inl e \<Rightarrow> Inl e
           | Inr scs' \<Rightarrow> Inr (sc' # scs')))"

definition add_trajectories ::
  "env \<Rightarrow> participant \<Rightarrow> string list \<Rightarrow> int list list
   \<Rightarrow> (string list \<times> int list list) option \<Rightarrow> py_error + participant" where
  "add_trajectories E part part_files part_scene_nums cam =
     py_bind (map_raising (\<lambda>x. py_index x 1) part_scene_nums) (\<lambda>aux_scene_nums.
     py_bind (add_trajectories_loop E (part_num part) part_files aux_scene_nums cam
                (scenes part)) (\<lambda>scs.
       Inr (part\<lparr>scenes := scs\<rparr>)))"

subsection \<open>\<open>BoxED\<close>\<close>

definition ALL_OBJS :: "string list" where
  "ALL_OBJS =
     [''002 masterchef can'', ''003 cracker box'', ''004 sugar box'', ''005 tomato soup can'',
      ''006 mustard bottle'', ''007 tuna fish can'', ''008 pudding box'',
      ''010 potted meat can'', ''011 banana'', ''012 strawberry'', ''013 apple'', ''014 lemon'',
      ''015 peach'', ''016 pear'', ''017 orange'', ''018 plum'', ''021 bleach cleanser'',
      ''025 mug'', ''057 racquetball'', ''058 golf ball'', ''100 half egg carton'', ''101 bread'',
      ''102 toothbrush'', ''103 toothpaste'']"

definition add_participant ::
  "env \<Rightarrow> string list \<Rightarrow> int list list \<Rightarrow> participant list \<Rightarrow> py_error + participant list" where
  "add_participant E pick_place_files part_scene_nums parts =
     py_bind (participant_add_objects E pick_place_files part_scene_nums) (\<lambda>new_participant.
       Inr (parts @ [new_participant]))"

text \<open>
  \<open>load_pick_place\<close>. One pass of the loop body at index \<open>i\<close>, on the state
  (\<open>start_idx\<close>, \<open>self.participants\<close>): the \<open>if\<close>/\<open>elif\<close>, then the third \<open>if\<close>, which
  reads \<open>start_idx\<close> after the first branch has set it to \<open>i\<close>.
\<close>

definition first_of :: "int list list \<Rightarrow> nat \<Rightarrow> py_error + int" where
  "first_of part_scene_nums k = py_bind (py_index part_scene_nums (int k)) (\<lambda>t. py_index t 0)"

definition load_pick_place_step ::
  "env \<Rightarrow> string list \<Rightarrow> int list list \<Rightarrow> nat \<Rightarrow> nat \<times> participant list
   \<Rightarrow> py_error + (nat \<times> participant list)" where
  "load_pick_place_step E pickplace_files part_scene_nums i st =
     (case st of (start_idx, parts) \<Rightarrow>
      py_bind (first_of part_scene_nums start_idx) (\<lambda>a.
      py_bind (first_of part_scene_nums i) (\<lambda>b.
      py_bind
        (if a \<noteq> b
         then py_bind (add_participant E (py_slice pickplace_files start_idx i)
                         (py_slice part_scene_nums start_idx i) parts)
                (\<lambda>parts'. Inr (i, parts'))
         else if a = b \<and> int i = int (length part_scene_nums) - 1
         then py_bind (add_participant E (py_slice pickplace_files start_idx (i + 1))
                         (py_slice part_scene_nums start_idx (i + 1)) parts)
                (\<lambda>parts'. Inr (start_idx, parts'))
         else Inr (start_idx, parts))
        (\<lambda>st1. case st1 of (start_idx1, parts1) \<Rightarrow>
           if int i = int (length part_scene_nums) - 1
           then py_bind (first_of part_scene_nums start_idx1) (\<lambda>a1.
                py_bind (first_of part_scene_nums i) (\<lambda>b1.
                  if a1 \<noteq> b1
                  then py_bind (py_index pickplace_files (int i)) (\<lambda>f.
                       py_bind (py_index part_scene_nums (int i)) (\<lambda>n.
                       py_bind (add_participant E [f] [n] parts1) (\<lambda>parts2.
                         Inr (start_idx1, parts2))))
                  else Inr (start_idx1, parts1)))
           else Inr (start_idx1, parts1)))))"

fun load_pick_place_loop ::
  "env \<Rightarrow> string list \<Rightarrow> int list list \<Rightarrow> nat list \<Rightarrow> nat \<times> participant list
   \<Rightarrow> py_error + (nat \<times> participant list)" where
  "load_pick_place_loop E pickplace_files part_scene_nums [] st = Inr st"
| "load_pick_place_loop E pickplace_files part_scene_nums (i # rest) st =
     (case load_pick_place_step E pickplace_files part_scene_nums i st of
        Inl e \<Rightarrow> Inl e
      | Inr st' \<Rightarrow> load_pick_place_loop E pickplace_files part_scene_nums rest st')"

definition load_pick_place :: "env \<Rightarrow> string \<Rightarrow> participant list \<Rightarrow> py_error + participant list" where
  "load_pick_place E folder parts =
     py_bind (file_crawler (os_walk E) folder ''PickPlace_dataset'' False) (\<lambda>r.
       case r of (pickplace_files, part_scene_nums) \<Rightarrow>
         py_bind (load_pick_place_loop E pickplace_files part_scene_nums
                    [0 ..< length part_scene_nums] (0, parts)) (\<lambda>st. Inr (snd st)))"

text \<open>
  \<open>load_trajectories\<close>. For one participant: its files and identities (the comparison
  of the array \<open>aux_part_nums\<close> with the participant's number is numpy's), the camera files
  split off (their indices collected in \<open>pop_idxs\<close>, deleted from the highest down), and
  the call of \<open>add_trajectories\<close> with or without the camera lists.
\<close>

definition del_at :: "'a list \<Rightarrow> nat \<Rightarrow> 'a list" where
  "del_at xs i = take i xs @ drop (i + 1) xs"

fun split_camera ::
  "(nat \<times> string \<times> int list) list \<Rightarrow> string list \<times> int list list \<times> nat list
   \<Rightarrow> string list \<times> int list list \<times> nat list" where
  "split_camera [] acc = acc"
| "split_camera ((i, part_file, pn) # rest) (cam_part_files, cam_part_nums, pop_idxs) =
     (if py_in_str ''main_camera_trajectory'' part_file
      then split_camera rest (cam_part_files @ [part_file], cam_part_nums @ [pn], pop_idxs @ [i])
      else split_camera rest (cam_part_files, cam_part_nums, pop_idxs))"

definition load_trajectories_part ::
  "env \<Rightarrow> bool \<Rightarrow> string list \<Rightarrow> int list list \<Rightarrow> int list \<Rightarrow> participant
   \<Rightarrow> py_error + participant" where
  "load_trajectories_part E with_cam trajectory_files part_scene_nums aux_part_nums part =
     py_bind (np_equal E aux_part_nums (part_num part)) (\<lambda>sel.
     (let part_files = map fst (filter snd (zip trajectory_files sel));
          part_nums = map fst (filter snd (zip part_scene_nums sel));
          cams = split_camera (zip [0 ..< length part_files] (zip part_files part_nums))
                   ([], [], []);
          cam_part_files = fst cams;
          cam_part_nums = fst (snd cams);
          pop_idxs = snd (snd cams);
          part_nums' = foldl del_at part_nums (rev (sort pop_idxs));
          part_files' = foldl del_at part_files (rev (sort pop_idxs))
      in if with_cam
         then add_trajectories E part part_files' part_nums' (Some (cam_part_files, cam_part_nums))
         else add_trajectories E part part_files' part_nums' None))"

definition load_trajectories ::
  "env \<Rightarrow> string \<Rightarrow> bool \<Rightarrow> participant list \<Rightarrow> py_error + participant list" where
  "load_trajectories E folder with_cam parts =
     py_bind (file_crawler (os_walk E) folder ''trajectory'' False) (\<lambda>r.
       case r of (trajectory_files, part_scene_nums) \<Rightarrow>
         py_bind (map_raising (\<lambda>x. py_index x 0) part_scene_nums) (\<lambda>aux_part_nums.
           map_raising
             (load_trajectories_part E with_cam trajectory_files part_scene_nums aux_part_nums)
             parts))"

text \<open>\<open>BoxED.__init__\<close>; \<open>folder\<close> is \<open>None\<close> or the path \<open>root_folder\<close>.\<close>

definition boxed_init :: "env \<Rightarrow> string option \<Rightarrow> bool \<Rightarrow> py_error + boxed" where
  "boxed_init E folder with_cam =
     (case folder of
        None \<Rightarrow> Inl (SystemExit 1)
      | Some r \<Rightarrow>
          if \<not> path_exists E r \<or> \<not> path_isdir E r then Inl (SystemExit 1)
          else py_bind (load_pick_place E r []) (\<lambda>parts.
               py_bind (load_trajectories E r with_cam parts) (\<lambda>parts'.
                 Inr \<lparr>participants = parts', root_folder = r, load_cam_traj = with_cam\<rparr>)))"

text \<open>\<open>get_scene_durations\<close>\<close>

definition scene_duration :: "scene \<Rightarrow> py_error + int" where
  "scene_duration sc =
     py_bind (py_bind (py_index (objs_info sc) (- 1)) (\<lambda>ob. py_index (trajectory ob) (- 1)))
       (\<lambda>last_pose.
     py_bind (py_bind (py_index (objs_info sc) 0) (\<lambda>ob. py_index (trajectory ob) 0))
       (\<lambda>first_pose.
       Inr (time_stamp last_pose - time_stamp first_pose)))"

fun durations_scenes :: "scene list \<Rightarrow> int list \<Rightarrow> py_error + int list" where
  "durations_scenes [] durations = Inr durations"
| "durations_scenes (sc # scs) durations =
     (case scene_duration sc of
        Inl e \<Rightarrow> Inl e
      | Inr d \<Rightarrow> durations_scenes scs (durations @ [d]))"

fun durations_participants :: "participant list \<Rightarrow> int list \<Rightarrow> py_error + int list" where
  "durations_participants [] durations = Inr durations"
| "durations_participants (p # ps) durations =
     (case durations_scenes (scenes p) durations of
        Inl e \<Rightarrow> Inl e
      | Inr durations' \<Rightarrow> durations_participants ps durations')"

definition get_scene_durations :: "boxed \<Rightarrow> py_error + int list" where
  "get_scene_durations ds = durations_participants (participants ds) []"

text \<open>
  \<open>get_grasp_poses\<close>. The argument \<open>objs\<close> is any Python value: a string, a list, or
  something else. The result is a dict, kept as the list of its items in insertion order.
  Both \<open>exit(1)\<close> calls raise \<open>SystemExit 1\<close>.
\<close>

datatype py_value = PyStr string | PyList "py_value list" | PyOther

fun is_str :: "py_value \<Rightarrow> bool" where
  "is_str (PyStr s) = True"
| "is_str v = False"

fun str_of :: "py_value \<Rightarrow> string" where
  "str_of (PyStr s) = s"
| "str_of v = []"

definition exits_program :: "py_error \<Rightarrow> bool" where
  "exits_program e = (case e of SystemExit status \<Rightarrow> True | _ \<Rightarrow> False)"

definition target_objs_of :: "py_value \<Rightarrow> py_error + string list" where
  "target_objs_of objs =
     (case objs of
        PyStr s \<Rightarrow>
          if s = ''all'' then Inr ALL_OBJS
          else if s \<in> set ALL_OBJS then Inr [s]
          else Inl (SystemExit 1)
      | PyList elems \<Rightarrow>
          if list_all is_str elems
          then (if list_all (\<lambda>elem. str_of elem \<in> set ALL_OBJS) elems
                then Inr (map str_of elems)
                else Inl (SystemExit 1))
          else Inl (SystemExit 1)
      | PyOther \<Rightarrow> Inl (SystemExit 1))"

definition grasp_add ::
  "string \<Rightarrow> string list \<Rightarrow> (string \<times> pose list) list \<Rightarrow> obj_with_traj
   \<Rightarrow> (string \<times> pose list) list" where
  "grasp_add grasp_type target_objs grasp_poses ob =
     (let p = (if grasp_type = ''pick'' then pick_pose ob else place_pose ob) in
      if name ob \<in> set target_objs
      then (if name ob \<notin> fst ` set grasp_poses
            then grasp_poses @ [(name ob, [p])]
            else map (\<lambda>(k, v). if k = name ob then (k, v @ [p]) else (k, v)) grasp_poses)
      else grasp_poses)"

definition get_grasp_poses ::
  "boxed \<Rightarrow> string \<Rightarrow> py_value \<Rightarrow> py_error + (string \<times> pose list) list" where
  "get_grasp_poses ds grasp_type objs =
     (if grasp_type \<notin> set [''pick'', ''place''] then Inl (SystemExit 1)
      else py_bind (target_objs_of objs) (\<lambda>target_objs.
        Inr (foldl (\<lambda>acc p.
               foldl (\<lambda>acc' sc. foldl (grasp_add grasp_type target_objs) acc' (objs_info sc))
                 acc (scenes p))
             [] (participants ds))))"

section \<open>Notions used in the statements\<close>

text \<open>
  The entries a walk discovers for a target, in the order of the walk: each file whose
  name contains the target, as the pair of its directory's \<open>part_scene_number\<close> and its
  joined path. \<open>kept\<close> is the test of \<open>uniq_seqs\<close> on an entry, and \<open>too_short\<close> says that
  the test raises on some entry.
\<close>

definition discovered ::
  "string \<Rightarrow> (string \<times> string list \<times> string list) list \<Rightarrow> (int list \<times> string) list" where
  "discovered target walk =
     concat (map (\<lambda>(path, subdirs, files).
       map (\<lambda>nm. (part_scene_number path, path_join path nm))
         (filter (py_in_str target) files)) walk)"

definition kept :: "bool \<Rightarrow> int list \<times> string \<Rightarrow> bool" where
  "kept uniq_seqs e = (\<not> (uniq_seqs \<and> (fst e ! 1 \<noteq> 1 \<or> fst e ! 0 < 26)))"

definition too_short :: "bool \<Rightarrow> (int list \<times> string) list \<Rightarrow> bool" where
  "too_short uniq_seqs es = (uniq_seqs \<and> (\<exists>e \<in> set es. length (fst e) < 2))"

text \<open>A scene whose first and last object exist and have a trajectory, and its duration.\<close>

abbreviation endpoints_ok :: "scene \<Rightarrow> bool" where
  "endpoints_ok sc \<equiv>
     (objs_info sc \<noteq> [] \<and> trajectory (hd (objs_info sc)) \<noteq> []
      \<and> trajectory (last (objs_info sc)) \<noteq> [])"

abbreviation span :: "scene \<Rightarrow> int" where
  "span sc \<equiv>
     time_stamp (last (trajectory (last (objs_info sc))))
     - time_stamp (hd (trajectory (hd (objs_info sc))))"

text \<open>
  The poses \<open>add_traj\<close> builds for the elements of a trajectory file, in file order: one
  \<open>PoseWithTime\<close> per element, from its rotation, translation and time stamp.
\<close>

abbreviation poses_of :: "env \<Rightarrow> trajectory_entry list \<Rightarrow> py_error + pose_with_time list" where
  "poses_of E data \<equiv>
     map_raising
       (\<lambda>d. PoseWithTime E (json_rotation d) (json_translation d) (json_timeStamp d)) data"

text \<open>
  The file that claim C2 names for an object, in the claim's words: the first, among all
  of the participant's object-trajectory files, whose filename (the part of the path after
  its last \<open>/\<close>) contains the object's name.
\<close>

definition filename_of :: "string \<Rightarrow> string" where
  "filename_of path = rev (takeWhile (\<lambda>c. c \<noteq> CHR ''/'') (rev path))"

definition claimed_traj_file :: "string list \<Rightarrow> obj_with_traj \<Rightarrow> string option" where
  "claimed_traj_file part_files ob =
     find (\<lambda>f. py_in_str (name ob) (filename_of f)) part_files"

section \<open>Example inputs\<close>

definition ex_obj :: "string \<Rightarrow> int list \<Rightarrow> obj_with_traj" where
  "ex_obj nm ts =
     \<lparr>name = nm, unique_id = 0,
      pick_pose = \<lparr>rotation = [], translation = []\<rparr>,
      place_pose = \<lparr>rotation = [], translation = []\<rparr>,
      trajectory = map (\<lambda>t. \<lparr>rotation = [], translation = [], time_stamp = t\<rparr>) ts\<rparr>"

definition ex_scene :: "int \<Rightarrow> obj_with_traj list \<Rightarrow> scene" where
  "ex_scene n objs = \<lparr>scene_num = n, initial_objs = [], objs_info = objs, cam_traj = []\<rparr>"

definition ex_dataset :: "scene list \<Rightarrow> boxed" where
  "ex_dataset scs =
     \<lparr>participants = [\<lparr>part_num = 1, scenes = scs\<rparr>], root_folder = ''data'',
      load_cam_traj = False\<rparr>"

text \<open>A directory with two trajectory files, listed \<open>b\<close> before \<open>a\<close>, and the same listed
  \<open>a\<close> before \<open>b\<close>.\<close>

definition ex_walk_ties :: "string \<Rightarrow> (string \<times> string list \<times> string list) list" where
  "ex_walk_ties r = [(''data/P1/S1'', [], [''b_trajectory.json'', ''a_trajectory.json''])]"

definition ex_walk_ties' :: "string \<Rightarrow> (string \<times> string list \<times> string list) list" where
  "ex_walk_ties' r = [(''data/P1/S1'', [], [''a_trajectory.json'', ''b_trajectory.json''])]"

text \<open>A tree of three directories, one of them with no digit in its path.\<close>

definition ex_walk :: "string \<Rightarrow> (string \<times> string list \<times> string list) list" where
  "ex_walk r =
     [(''data/P2/S1'', [], [''b_trajectory.json'', ''a_trajectory.json'', ''notes.txt'']),
      (''data/P1/S10'', [], [''c_trajectory.json'']),
      (''data/misc'', [], [''q_trajectory.json''])]"

text \<open>A PickPlace file in a directory with no digit in its path.\<close>

definition ex_walk_nodigits :: "string \<Rightarrow> (string \<times> string list \<times> string list) list" where
  "ex_walk_nodigits r = [(''data/misc'', [], [''PickPlace_dataset.json''])]"

text \<open>
  A world with a given walk, in which every PickPlace file holds \<open>pp\<close>, the trajectory
  file at path \<open>f\<close> holds \<open>tj f\<close>, and \<open>int\<close> reads the suffix \<open>0000\<close>. All numbers of the
  examples are small and all rotations empty, so the two numpy fields are never read.
\<close>

definition ex_env ::
  "(string \<times> string list \<times> string list) list \<Rightarrow> pickplace_entry list
   \<Rightarrow> (string \<Rightarrow> trajectory_entry list) \<Rightarrow> env" where
  "ex_env walk pp tj =
     \<lparr>os_walk = (\<lambda>r. walk), path_exists = (\<lambda>p. True), path_isdir = (\<lambda>p. True),
      load_pickplace = (\<lambda>f. Inr pp), load_trajectory = (\<lambda>f. Inr (tj f)),
      py_int = (\<lambda>s. if s = ''0000'' then Inr 0 else Inl ValueError),
      np_equal_wide = (\<lambda>xs n. Inr (map (\<lambda>x. x = n) xs)),
      asarray_ragged = (\<lambda>m. Inl ValueError)\<rparr>"

definition ex_entry :: "int \<Rightarrow> trajectory_entry" where
  "ex_entry t = \<lparr>json_rotation = [], json_translation = [], json_timeStamp = t\<rparr>"

definition ex_pp :: "string \<Rightarrow> pickplace_entry" where
  "ex_pp raw =
     \<lparr>json_id = raw, json_pickRotation = [], json_pickTranslation = [],
      json_placeRotation = [], json_placeTranslation = []\<rparr>"

text \<open>Two participants; the second has one file, the last of the sorted list.\<close>

definition ex_last_single_env :: env where
  "ex_last_single_env =
     ex_env [(''data/P1/S1'', [], [''PickPlace_dataset.json'']),
             (''data/P2/S1'', [], [''PickPlace_dataset.json''])] [] (\<lambda>f. [])"

text \<open>Two participants; the second has two files.\<close>

definition ex_two_runs_env :: env where
  "ex_two_runs_env =
     ex_env [(''data/P1/S1'', [], [''PickPlace_dataset.json'']),
             (''data/P2/S1'', [], [''PickPlace_dataset.json'']),
             (''data/P2/S2'', [], [''PickPlace_dataset.json''])] [] (\<lambda>f. [])"

text \<open>One scene with a camera trajectory file of one record.\<close>

definition ex_camera_env :: env where
  "ex_camera_env =
     ex_env [(''data/P1/S1'', [], [''PickPlace_dataset.json'', ''main_camera_trajectory.json''])]
       [] (\<lambda>f. [ex_entry 0])"

text \<open>
  One participant with two scenes. Each scene packs the same object, and each scene's
  directory has the trajectory file of the object, with its own records.
\<close>

definition ex_two_scenes_env :: env where
  "ex_two_scenes_env =
     ex_env [(''data/P1/S1'', [], [''PickPlace_dataset.json'', ''003 cracker box_trajectory.json'']),
             (''data/P1/S2'', [], [''PickPlace_dataset.json'', ''003 cracker box_trajectory.json''])]
       [ex_pp ''003 cracker box(clone)-0000'']
       (\<lambda>f. if f = ''data/P1/S1/003 cracker box_trajectory.json''
            then [ex_entry 0, ex_entry 40] else [ex_entry 5, ex_entry 70])"

text \<open>
  One scene with one object, named \<open>P1\<close> as the participant's directory is; the
  filename of the only trajectory file does not contain the object's name, its path does.
\<close>

definition ex_dir_name_env :: env where
  "ex_dir_name_env =
     ex_env [(''data/P1/S1'', [], [''PickPlace_dataset.json'', ''banana_trajectory.json''])]
       [ex_pp ''P1-0000''] (\<lambda>f. [ex_entry 0, ex_entry 40])"

text \<open>
  A participant with two scenes. Scene 1 has two objects, the name of the second a
  substring of the name of the first; scene 2 has one object.
\<close>

definition ex_part :: "int list \<Rightarrow> participant" where
  "ex_part ts =
     \<lparr>part_num = 1,
      scenes = [ex_scene 1 [ex_obj ''003 cracker box'' ts, ex_obj ''cracker box'' ts],
                ex_scene 2 [ex_obj ''003 cracker box'' []]]\<rparr>"

definition ex_traj_env :: env where
  "ex_traj_env = ex_env [] [] (\<lambda>f. [ex_entry 0, ex_entry 40])"

section \<open>Properties of \<open>get_clean_name\<close>\<close>

lemma str_find_range: "- 1 \<le> str_find c s \<and> str_find c s \<le> int (length s)"
  by (induction s) (auto simp: Let_def)

lemma slice_upto_prefix: "prefix (slice_upto xs k) xs"
  by (simp add: slice_upto_def take_is_prefix)

lemma slice_upto_length: "length (slice_upto xs k) \<le> length xs"
  by (simp add: slice_upto_def min_def)

text \<open>
  What \<open>get_clean_name\<close> returns, by the positions of the two delimiters: the name when
  neither occurs, the cut at the smaller index when both indices are positive, and the cut
  at the larger index otherwise, which is index 0 for a lone delimiter in the first place.
\<close>

lemma get_clean_name_cases:
  "get_clean_name s =
     (let i = str_find (CHR ''('') s; j = str_find (CHR ''-'') s in
      if i = - 1 \<and> j = - 1 then s
      else if 0 < i \<and> 0 < j then take (nat (min i j)) s
      else take (nat (max i j)) s)"
  using str_find_range [of "CHR ''(''" s] str_find_range [of "CHR ''-''" s]
  by (auto simp: get_clean_name_def slice_upto_def Let_def)

text \<open>
  Claim C4, at the input where the code departs from it. The name \<open>(leading)tail\<close> has
  \<open>(\<close> at index 0 and no \<open>-\<close>, so \<open>idx1 = 0\<close> and \<open>idx2 = -1\<close>: the minimum \<open>-1\<close> is not
  positive, the maximum \<open>0\<close> is taken, and the result is the empty string, where the claim
  has the name cut at the larger index (none: the name unchanged) and never empty.
  The two inputs the claim names evaluate as it says.
\<close>

theorem get_clean_name_leading_delimiter:
  "get_clean_name ''(leading)tail'' = ''''
   \<and> get_clean_name ''010 box(clone)-29932'' = ''010 box''
   \<and> get_clean_name ''plain name'' = ''plain name''"
  by (simp add: get_clean_name_def slice_upto_def Let_def)

theorem get_clean_name_leading_delimiter_witness:
  "get_clean_name ''(leading)tail'' = ''''"
  using get_clean_name_leading_delimiter by (rule conjunct1)

text \<open>
  Claim C10: the result of \<open>get_clean_name\<close> is a prefix of its argument, so it is no longer
  than the argument.
\<close>

theorem get_clean_name_prefix:
  "prefix (get_clean_name s) s \<and> length (get_clean_name s) \<le> length s"
  unfolding get_clean_name_def Let_def
  by (intro conjI slice_upto_prefix slice_upto_length)

theorem get_clean_name_prefix_witness:
  "prefix (get_clean_name ''010 box(clone)-29932'') ''010 box(clone)-29932''
   \<and> length (get_clean_name ''010 box(clone)-29932'') \<le> 20"
  using get_clean_name_prefix [of "''010 box(clone)-29932''"] by simp

section \<open>Properties of \<open>file_crawler\<close>\<close>

lemma skip_entry_eq:
  "skip_entry u psn =
     (if u \<and> length psn < 2 then Inl IndexError else Inr (u \<and> (psn ! 1 \<noteq> 1 \<or> psn ! 0 < 26)))"
  by (auto simp: skip_entry_def py_index_def py_bind_def Let_def)

lemma crawl_files_eq:
  "crawl_files t u p files (ps, ns) =
     (let es = map (\<lambda>nm. (part_scene_number p, path_join p nm)) (filter (py_in_str t) files)
      in if too_short u es then Inl IndexError
         else Inr (ps @ map snd (filter (kept u) es), ns @ map fst (filter (kept u) es)))"
proof (induction files arbitrary: ps ns)
  case Nil
  then show ?case by (simp add: too_short_def)
next
  case (Cons nm files)
  show ?case
  proof (cases "py_in_str t nm")
    case False
    then show ?thesis using Cons.IH by simp
  next
    case True
    show ?thesis
    proof (cases "u \<and> length (part_scene_number p) < 2")
      case True
      with \<open>py_in_str t nm\<close> show ?thesis
        by (simp add: skip_entry_eq too_short_def Let_def)
    next
      case False
      with \<open>py_in_str t nm\<close> show ?thesis
        using Cons.IH
        by (auto simp: skip_entry_eq too_short_def Let_def kept_def)
    qed
  qed
qed

lemma too_short_append: "too_short u (xs @ ys) = (too_short u xs \<or> too_short u ys)"
  by (auto simp: too_short_def)

lemma crawl_walk_eq:
  "crawl_walk t u walk (ps, ns) =
     (if too_short u (discovered t walk) then Inl IndexError
      else Inr (ps @ map snd (filter (kept u) (discovered t walk)),
                ns @ map fst (filter (kept u) (discovered t walk))))"
proof (induction walk arbitrary: ps ns)
  case Nil
  then show ?case by (simp add: discovered_def too_short_def)
next
  case (Cons w walk)
  obtain p sd files where w: "w = (p, sd, files)" by (cases w)
  have d: "discovered t (w # walk) =
      map (\<lambda>nm. (part_scene_number p, path_join p nm)) (filter (py_in_str t) files)
      @ discovered t walk"
    by (simp add: discovered_def w)
  show ?case
    unfolding d too_short_append
    by (simp add: w crawl_files_eq Let_def Cons.IH)
qed

lemma sorted_map_fst:
  fixes ps :: "('a::linorder \<times> 'b::linorder) list"
  shows "sorted ps \<Longrightarrow> sorted (map fst ps)"
  by (induction ps) (auto simp: less_eq_prod_def)

lemma map_fst_sort:
  fixes ps :: "('a::linorder \<times> 'b::linorder) list"
  shows "map fst (sort ps) = sort (map fst ps)"
proof -
  have "mset (map fst (sort ps)) = mset (map fst ps)" by simp
  moreover have "sorted (map fst (sort ps))" by (rule sorted_map_fst) simp
  ultimately show ?thesis by (metis properties_for_sort)
qed

lemma resort_zip:
  fixes ns :: "'a::linorder list" and ps :: "'b::linorder list"
  assumes "length ns = length ps"
  shows "zip (map fst (sort (zip ns (map snd (sort (zip ns ps)))))) (map snd (sort (zip ns ps)))
         = sort (zip ns ps)"
proof -
  let ?S = "sort (zip ns ps)"
  have len: "length (map snd ?S) = length ns" using assms by simp
  have "map fst (sort (zip ns (map snd ?S))) = sort (map fst (zip ns (map snd ?S)))"
    by (rule map_fst_sort)
  also have "map fst (zip ns (map snd ?S)) = ns" using len by (simp add: map_fst_zip del: length_map)
  also have "sort ns = sort (map fst (zip ns ps))" using assms by simp
  also have "\<dots> = map fst ?S" by (rule map_fst_sort [symmetric])
  finally show ?thesis by (simp add: zip_map_fst_snd)
qed

lemma file_crawler_eq:
  "file_crawler w r t u =
     (if too_short u (discovered t (w r)) then Inl IndexError
      else Inr (map snd (sort (filter (kept u) (discovered t (w r)))),
                map fst (sort (filter (kept u) (discovered t (w r))))))"
proof -
  let ?E = "filter (kept u) (discovered t (w r))"
  have z: "zip (map fst ?E) (map snd ?E) = ?E" by (simp add: zip_map_fst_snd)
  have "map fst (sort (zip (map fst ?E) (map snd (sort (zip (map fst ?E) (map snd ?E))))))
        = map fst (sort ?E)"
    using resort_zip [of "map fst ?E" "map snd ?E"] z
    by (metis (no_types, lifting) length_map map_fst_zip length_sort)
  then show ?thesis
    by (simp add: file_crawler_def crawl_walk_eq [of t u "w r" "[]" "[]", simplified] z Let_def)
qed


lemma discovered_mem:
  "e \<in> set (discovered t walk) \<longleftrightarrow>
     (\<exists>(p, sd, files) \<in> set walk. \<exists>nm \<in> set files.
        py_in_str t nm \<and> e = (part_scene_number p, path_join p nm))"
  by (fastforce simp: discovered_def)

text \<open>
  Claim C9: the two lists \<open>file_crawler\<close> returns have the same length; the pairs
  (identity, path) at their positions are a permutation of the pairs the loop appended,
  so the two sorts keep every path with its identity; and at every index the path is the
  join of a directory of the walk with one of its files whose name contains the target,
  and the identity is that directory's tuple of digit runs. The second sort pairs the
  unsorted identities with the sorted paths, and still returns the identities in the order
  of the first sort.
\<close>

theorem file_crawler_pairing:
  assumes "file_crawler w r t u = Inr (paths, nums)"
  shows "length paths = length nums
     \<and> (\<exists>ps0 ns0. crawl_walk t u (w r) ([], []) = Inr (ps0, ns0)
           \<and> mset (zip nums paths) = mset (zip ns0 ps0))
     \<and> (\<forall>i < length paths. \<exists>(p, sd, files) \<in> set (w r). \<exists>nm \<in> set files.
             py_in_str t nm \<and> paths ! i = path_join p nm \<and> nums ! i = part_scene_number p)"
proof -
  let ?E = "filter (kept u) (discovered t (w r))"
  let ?S = "sort ?E"
  from assms have ok: "\<not> too_short u (discovered t (w r))"
    and eq: "paths = map snd ?S" "nums = map fst ?S"
    by (auto simp: file_crawler_eq split: if_splits)
  have len: "length paths = length nums" by (simp add: eq)
  have crawl: "crawl_walk t u (w r) ([], []) = Inr (map snd ?E, map fst ?E)"
    using ok by (simp add: crawl_walk_eq)
  have "zip nums paths = ?S" by (simp add: eq zip_map_fst_snd)
  then have "mset (zip nums paths) = mset (zip (map fst ?E) (map snd ?E))"
    by (simp add: zip_map_fst_snd)
  with crawl have perm: "\<exists>ps0 ns0. crawl_walk t u (w r) ([], []) = Inr (ps0, ns0)
      \<and> mset (zip nums paths) = mset (zip ns0 ps0)"
    by blast
  have "\<exists>(p, sd, files) \<in> set (w r). \<exists>nm \<in> set files.
          py_in_str t nm \<and> paths ! i = path_join p nm \<and> nums ! i = part_scene_number p"
    if "i < length paths" for i
  proof -
    from that have i: "i < length ?S" by (simp add: eq)
    then have "?S ! i \<in> set ?S" by (rule nth_mem)
    then have "?S ! i \<in> set (discovered t (w r))" by auto
    then obtain p sd files nm where
      "(p, sd, files) \<in> set (w r)" "nm \<in> set files" "py_in_str t nm"
      "?S ! i = (part_scene_number p, path_join p nm)"
      unfolding discovered_mem by blast
    moreover have "paths ! i = snd (?S ! i)" "nums ! i = fst (?S ! i)"
      using i by (simp_all add: eq)
    ultimately show ?thesis by force
  qed
  with len perm show ?thesis by blast
qed

theorem file_crawler_pairing_witness:
  "file_crawler ex_walk ''data'' ''trajectory'' False =
     Inr ([''data/misc/q_trajectory.json'', ''data/P1/S10/c_trajectory.json'',
           ''data/P2/S1/a_trajectory.json'', ''data/P2/S1/b_trajectory.json''],
          [[], [1, 10], [2, 1], [2, 1]])
   \<and> (\<exists>(p, sd, files) \<in> set (ex_walk ''data''). \<exists>nm \<in> set files.
         py_in_str ''trajectory'' nm \<and> ''data/P1/S10/c_trajectory.json'' = path_join p nm
         \<and> [1, 10] = part_scene_number p)"
proof -
  have r: "file_crawler ex_walk ''data'' ''trajectory'' False =
     Inr ([''data/misc/q_trajectory.json'', ''data/P1/S10/c_trajectory.json'',
           ''data/P2/S1/a_trajectory.json'', ''data/P2/S1/b_trajectory.json''],
          [[], [1, 10], [2, 1], [2, 1]])"
    by code_simp
  from file_crawler_pairing [OF r] have
    "\<forall>i < 4. \<exists>(p, sd, files) \<in> set (ex_walk ''data''). \<exists>nm \<in> set files.
       py_in_str ''trajectory'' nm
       \<and> [''data/misc/q_trajectory.json'', ''data/P1/S10/c_trajectory.json'',
           ''data/P2/S1/a_trajectory.json'', ''data/P2/S1/b_trajectory.json''] ! i = path_join p nm
       \<and> [[], [1, 10], [2, 1], [2, 1]] ! i = part_scene_number p"
    by simp
  then have "\<exists>(p, sd, files) \<in> set (ex_walk ''data''). \<exists>nm \<in> set files.
       py_in_str ''trajectory'' nm
       \<and> [''data/misc/q_trajectory.json'', ''data/P1/S10/c_trajectory.json'',
           ''data/P2/S1/a_trajectory.json'', ''data/P2/S1/b_trajectory.json''] ! 1 = path_join p nm
       \<and> [[], [1, 10], [2, 1], [2, 1]] ! 1 = part_scene_number p"
    by (rule allE [of _ 1]) simp
  with r show ?thesis by simp
qed

text \<open>
  Claim C5 fails on the order of entries with equal identity. \<open>sorted\<close> runs on the pairs
  (identity, path), so two files of one directory come out in the order of their path
  strings: listed \<open>b\<close> before \<open>a\<close> (the order in which the loop appends them), they are
  returned \<open>a\<close> before \<open>b\<close>.
\<close>

theorem file_crawler_ties_counterexample:
  "crawl_walk ''trajectory'' False (ex_walk_ties ''data'') ([], []) =
     Inr ([''data/P1/S1/b_trajectory.json'', ''data/P1/S1/a_trajectory.json''],
          [[1, 1], [1, 1]])
   \<and> file_crawler ex_walk_ties ''data'' ''trajectory'' False =
     Inr ([''data/P1/S1/a_trajectory.json'', ''data/P1/S1/b_trajectory.json''],
          [[1, 1], [1, 1]])"
  by code_simp

text \<open>
  Claim C5 as amended: the identities \<open>file_crawler\<close> returns are sorted ascending (as
  tuples: participant number first, then scene number); entries with equal identity
  appear in ascending order of their path strings; and the result does not depend on the
  order in which the walk lists directories and files: every walk that discovers the same
  entries, in any order, gives the same result.
\<close>

theorem file_crawler_order:
  assumes "file_crawler w r t u = Inr (paths, nums)"
  shows "sorted nums \<and>
         (\<forall>i j. i < j \<and> j < length paths \<and> nums ! i = nums ! j \<longrightarrow> paths ! i \<le> paths ! j) \<and>
         (\<forall>w' r'. mset (discovered t (w' r')) = mset (discovered t (w r))
             \<longrightarrow> file_crawler w' r' t u = Inr (paths, nums))"
proof -
  let ?S = "sort (filter (kept u) (discovered t (w r)))"
  from assms have ok: "\<not> too_short u (discovered t (w r))"
    and eq: "paths = map snd ?S" "nums = map fst ?S"
    by (auto simp: file_crawler_eq split: if_splits)
  have s: "sorted ?S" by simp
  have 1: "sorted nums" unfolding eq by (rule sorted_map_fst) simp
  have 2: "paths ! i \<le> paths ! j" if "i < j" "j < length paths" "nums ! i = nums ! j" for i j
  proof -
    from that have j: "j < length ?S" and i: "i < length ?S" by (simp_all add: eq)
    with s \<open>i < j\<close> have "?S ! i \<le> ?S ! j" by (simp add: sorted_nth_mono)
    moreover have "fst (?S ! i) = fst (?S ! j)" using that i j by (simp add: eq)
    ultimately have "snd (?S ! i) \<le> snd (?S ! j)" by (auto simp: less_eq_prod_def)
    then show ?thesis using i j by (simp add: eq)
  qed
  have 3: "file_crawler w' r' t u = Inr (paths, nums)"
    if m: "mset (discovered t (w' r')) = mset (discovered t (w r))" for w' r'
  proof -
    from m have "set (discovered t (w' r')) = set (discovered t (w r))" by (rule mset_eq_setD)
    then have a: "\<not> too_short u (discovered t (w' r'))" using ok by (simp add: too_short_def)
    from m have "mset (filter (kept u) (discovered t (w' r'))) = mset (filter (kept u) (discovered t (w r)))"
      by (metis mset_filter)
    then have "sort (filter (kept u) (discovered t (w' r'))) = ?S"
      by (metis sorted_list_of_multiset_mset)
    with a show ?thesis by (simp add: file_crawler_eq eq)
  qed
  from 1 2 3 show ?thesis by blast
qed

theorem file_crawler_order_witness:
  "file_crawler ex_walk_ties ''data'' ''trajectory'' False =
     Inr ([''data/P1/S1/a_trajectory.json'', ''data/P1/S1/b_trajectory.json''],
          [[1, 1], [1, 1]])
   \<and> sorted [[1, 1], [1, 1 :: int]]
   \<and> ''data/P1/S1/a_trajectory.json'' \<le> ''data/P1/S1/b_trajectory.json''
   \<and> file_crawler ex_walk_ties' ''data'' ''trajectory'' False =
     Inr ([''data/P1/S1/a_trajectory.json'', ''data/P1/S1/b_trajectory.json''],
          [[1, 1], [1, 1]])"
proof -
  let ?a = "''data/P1/S1/a_trajectory.json''" and ?b = "''data/P1/S1/b_trajectory.json''"
  have r: "file_crawler ex_walk_ties ''data'' ''trajectory'' False =
             Inr ([?a, ?b], [[1, 1], [1, 1]])"
    by code_simp
  have d: "discovered ''trajectory'' (ex_walk_ties ''data'') = [([1, 1], ?b), ([1, 1], ?a)]"
    by code_simp
  have d': "discovered ''trajectory'' (ex_walk_ties' ''data'') = [([1, 1], ?a), ([1, 1], ?b)]"
    by code_simp
  have m: "mset (discovered ''trajectory'' (ex_walk_ties' ''data''))
           = mset (discovered ''trajectory'' (ex_walk_ties ''data''))"
    unfolding d d' by simp
  note t = file_crawler_order [OF r]
  from t have 1: "sorted [[1, 1], [1, 1 :: int]]" by blast
  from t have "[?a, ?b] ! 0 \<le> [?a, ?b] ! 1"
    by (elim conjE allE [of _ 0] allE [of _ 1] impE) simp_all
  then have 2: "?a \<le> ?b" by simp
  from t m have 3: "file_crawler ex_walk_ties' ''data'' ''trajectory'' False =
                      Inr ([?a, ?b], [[1, 1], [1, 1]])"
    by blast
  from r 1 2 3 show ?thesis by blast
qed

text \<open>
  Claim C6 fails where \<open>uniq_seqs\<close> is false, as in both calls of the importer: the tuple
  of digit runs is appended as it is, whatever its length. A PickPlace file in a directory
  with no digit in its path is returned with the empty identity.
\<close>

theorem file_crawler_no_digits_counterexample:
  "file_crawler ex_walk_nodigits ''data'' ''PickPlace_dataset'' False =
     Inr ([''data/misc/PickPlace_dataset.json''], [[]])"
  by code_simp

text \<open>
  Claim C6 as amended: for a matched file whose directory path has fewer than two runs of
  digits, \<open>file_crawler\<close> without \<open>uniq_seqs\<close> does not fail and returns an entry for the
  file, with the tuple of the digit runs there are as its identity; with \<open>uniq_seqs\<close> it
  raises \<open>IndexError\<close>.
\<close>

theorem file_crawler_short_identity:
  assumes "(p, sd, files) \<in> set (w r)" and "nm \<in> set files" and "py_in_str t nm"
    and "length (part_scene_number p) < 2"
  shows "(\<exists>paths nums. file_crawler w r t False = Inr (paths, nums)
            \<and> (part_scene_number p, path_join p nm) \<in> set (zip nums paths))
         \<and> file_crawler w r t True = Inl IndexError"
proof -
  let ?e = "(part_scene_number p, path_join p nm)"
  let ?S = "sort (filter (kept False) (discovered t (w r)))"
  from assms have mem: "?e \<in> set (discovered t (w r))"
    unfolding discovered_mem by blast
  have "file_crawler w r t False = Inr (map snd ?S, map fst ?S)"
    by (simp add: file_crawler_eq too_short_def)
  moreover have "?e \<in> set (zip (map fst ?S) (map snd ?S))"
    using mem by (simp add: zip_map_fst_snd kept_def)
  moreover have "file_crawler w r t True = Inl IndexError"
    using mem assms(4) by (force simp: file_crawler_eq too_short_def)
  ultimately show ?thesis by blast
qed

theorem file_crawler_short_identity_witness:
  "(\<exists>paths nums. file_crawler ex_walk_nodigits ''data'' ''PickPlace_dataset'' False
        = Inr (paths, nums)
      \<and> ([], ''data/misc/PickPlace_dataset.json'') \<in> set (zip nums paths))
   \<and> file_crawler ex_walk_nodigits ''data'' ''PickPlace_dataset'' True = Inl IndexError"
proof -
  have h1: "(''data/misc'', [], [''PickPlace_dataset.json'']) \<in> set (ex_walk_nodigits ''data'')"
    by (simp add: ex_walk_nodigits_def)
  have h2: "''PickPlace_dataset.json'' \<in> set [''PickPlace_dataset.json'']" by simp
  have h3: "py_in_str ''PickPlace_dataset'' ''PickPlace_dataset.json''" by code_simp
  have p: "part_scene_number ''data/misc'' = []" by code_simp
  have j: "path_join ''data/misc'' ''PickPlace_dataset.json'' = ''data/misc/PickPlace_dataset.json''"
    by code_simp
  have h4: "length (part_scene_number ''data/misc'') < 2" by (simp add: p)
  from file_crawler_short_identity
         [where w = ex_walk_nodigits and r = "''data''", OF h1 h2 h3 h4]
  show ?thesis
    by (simp only: p j)
qed

section \<open>Properties of \<open>get_scene_durations\<close>\<close>

lemma py_index_last: "py_index xs (- 1) = (if xs = [] then Inl IndexError else Inr (last xs))"
  by (cases xs rule: rev_cases) (simp_all add: py_index_def Let_def nth_append)

lemma py_index_first: "py_index xs 0 = (if xs = [] then Inl IndexError else Inr (hd xs))"
  by (cases xs) (simp_all add: py_index_def Let_def)

lemma scene_duration_eq:
  "scene_duration sc = (if endpoints_ok sc then Inr (span sc) else Inl IndexError)"
  by (simp add: scene_duration_def py_index_last py_index_first py_bind_def)

lemma durations_scenes_eq:
  "durations_scenes scs acc =
     (if \<forall>sc \<in> set scs. endpoints_ok sc then Inr (acc @ map span scs) else Inl IndexError)"
  by (induction scs arbitrary: acc) (auto simp: scene_duration_eq)

lemma durations_participants_eq:
  "durations_participants ps acc =
     (if \<forall>p \<in> set ps. \<forall>sc \<in> set (scenes p). endpoints_ok sc
      then Inr (acc @ concat (map (\<lambda>p. map span (scenes p)) ps)) else Inl IndexError)"
  by (induction ps arbitrary: acc) (auto simp: durations_scenes_eq)

text \<open>
  Claim C8: when every scene has objects and the first and the last object of every
  scene have a trajectory, \<open>get_scene_durations\<close> returns, scene by scene in the order of
  participants and of their scenes, the last time stamp of the last object minus the first
  time stamp of the first object. Otherwise it fails: indexing an empty trajectory (or an
  empty list of objects) raises \<open>IndexError\<close>, the error the specification calls
  \<open>EmptyTrajectoryError\<close>.
\<close>

theorem get_scene_durations_spec:
  "get_scene_durations ds =
     (if \<forall>p \<in> set (participants ds). \<forall>sc \<in> set (scenes p).
           objs_info sc \<noteq> [] \<and> trajectory (hd (objs_info sc)) \<noteq> []
           \<and> trajectory (last (objs_info sc)) \<noteq> []
      then Inr (concat (map (\<lambda>p. map (\<lambda>sc.
                 time_stamp (last (trajectory (last (objs_info sc))))
                 - time_stamp (hd (trajectory (hd (objs_info sc))))) (scenes p))
               (participants ds)))
      else Inl IndexError)"
  by (simp add: get_scene_durations_def durations_participants_eq)

theorem get_scene_durations_spec_witness:
  "get_scene_durations
     (ex_dataset [ex_scene 1 [ex_obj ''011 banana'' [100, 500], ex_obj ''013 apple'' [50, 900]]])
     = Inr [800]
   \<and> get_scene_durations
     (ex_dataset [ex_scene 1 [ex_obj ''011 banana'' [100, 500], ex_obj ''013 apple'' []]])
     = Inl IndexError"
  using
    get_scene_durations_spec
      [of "ex_dataset [ex_scene 1 [ex_obj ''011 banana'' [100, 500], ex_obj ''013 apple'' [50, 900]]]"]
    get_scene_durations_spec
      [of "ex_dataset [ex_scene 1 [ex_obj ''011 banana'' [100, 500], ex_obj ''013 apple'' []]]"]
  by (simp add: ex_dataset_def ex_scene_def ex_obj_def)

section \<open>Properties of \<open>load_pick_place\<close>\<close>

text \<open>
  The third \<open>if\<close> of the loop body never adds a participant: one pass of the body is the
  \<open>if\<close>/\<open>elif\<close> alone, whatever the lists and the state.
\<close>

lemma load_pick_place_step_third_if:
  "load_pick_place_step E files nums i (start_idx, parts) =
     py_bind (first_of nums start_idx) (\<lambda>a.
     py_bind (first_of nums i) (\<lambda>b.
       if a \<noteq> b
       then py_bind (add_participant E (py_slice files start_idx i)
                       (py_slice nums start_idx i) parts)
              (\<lambda>parts'. Inr (i, parts'))
       else if int i = int (length nums) - 1
       then py_bind (add_participant E (py_slice files start_idx (i + 1))
                       (py_slice nums start_idx (i + 1)) parts)
              (\<lambda>parts'. Inr (start_idx, parts'))
       else Inr (start_idx, parts)))"
  by (auto simp: load_pick_place_step_def py_bind_def split: sum.splits)

text \<open>
  Claim C1, at the input where the code departs from it. The sorted list has the files
  of participants 1 and 2, one file each. At the last index the first branch closes the
  run of participant 1 and sets \<open>start_idx\<close> to the index; the third \<open>if\<close>, written for
  this case, then compares the tuple at \<open>start_idx\<close> with itself and adds nothing: no
  Participant is made for participant 2. When the last run has two files it is made.
\<close>

theorem load_pick_place_last_single:
  "file_crawler (os_walk ex_last_single_env) ''data'' ''PickPlace_dataset'' False =
     Inr ([''data/P1/S1/PickPlace_dataset.json'', ''data/P2/S1/PickPlace_dataset.json''],
          [[1, 1], [2, 1]])
   \<and> load_pick_place ex_last_single_env ''data'' [] =
     Inr [\<lparr>part_num = 1, scenes = [ex_scene 1 []]\<rparr>]
   \<and> load_pick_place ex_two_runs_env ''data'' [] =
     Inr [\<lparr>part_num = 1, scenes = [ex_scene 1 []]\<rparr>,
          \<lparr>part_num = 2, scenes = [ex_scene 1 [], ex_scene 2 []]\<rparr>]"
  by code_simp

section \<open>Properties of the trajectory loaders\<close>

lemma add_traj_loop_eq:
  "add_traj_loop E data traj =
     (case poses_of E data of Inl e \<Rightarrow> Inl e | Inr ps \<Rightarrow> Inr (traj @ ps))"
  by (induction data arbitrary: traj)
     (auto simp: py_bind_def dict_getitem_def split: sum.splits)

lemma poses_of_fields:
  "poses_of E data = Inr ps \<Longrightarrow>
     map time_stamp ps = map json_timeStamp data \<and> map translation ps = map json_translation data"
  by (induction data arbitrary: ps)
     (auto simp: PoseWithTime_def py_bind_def split: sum.splits)

lemma poses_of_rectangular:
  "list_all (\<lambda>d. rectangular (json_rotation d)) data \<Longrightarrow>
     poses_of E data =
       Inr (map (\<lambda>d. \<lparr>rotation = json_rotation d, translation = json_translation d,
                        time_stamp = json_timeStamp d\<rparr>) data)"
  by (induction data) (auto simp: PoseWithTime_def np_asarray_def py_bind_def)

lemma add_traj_eq:
  "add_traj E ob f = Inr ob' \<longleftrightarrow>
     (\<exists>data ps. load_trajectory E f = Inr data \<and> poses_of E data = Inr ps
        \<and> ob' = ob\<lparr>trajectory := trajectory ob @ ps\<rparr>)"
  by (auto simp: add_traj_def add_traj_loop_eq py_bind_def split: sum.splits)

lemma add_obj_traj_files_eq:
  "add_obj_traj_files E ob files =
     (case find (py_in_str (name ob)) files of
        None \<Rightarrow> Inr ob
      | Some f \<Rightarrow> add_traj E ob f)"
  by (induction files) simp_all

lemma add_obj_traj_objs_all:
  "add_obj_traj_objs E sf obs = Inr obs' \<Longrightarrow>
     list_all2 (\<lambda>ob ob'. add_obj_traj_files E ob sf = Inr ob') obs obs'"
proof (induction obs arbitrary: obs')
  case Nil
  then show ?case by simp
next
  case (Cons ob obs)
  then show ?case by (auto split: sum.splits)
qed

lemma add_cam_traj_objs:
  "add_cam_traj E sc f = Inr sc' \<Longrightarrow> objs_info sc' = objs_info sc"
  by (auto simp: add_cam_traj_def py_bind_def split: sum.splits)

lemma add_obj_traj_iff:
  "add_obj_traj E sc sf = Inr sc1 \<Longrightarrow>
     list_all2 (\<lambda>ob ob'. add_obj_traj_files E ob sf = Inr ob') (objs_info sc) (objs_info sc1)"
  by (auto simp: add_obj_traj_def py_bind_def add_obj_traj_objs_all split: sum.splits)

lemma add_trajectories_loop_objs:
  "add_trajectories_loop E pn pf aux cam scs = Inr scs' \<Longrightarrow>
     list_all2 (\<lambda>sc sc'. \<exists>sf.
        scene_files_of E pf aux (scene_num sc) = Inr sf \<and>
        list_all2 (\<lambda>ob ob'. add_obj_traj_files E ob sf = Inr ob')
          (objs_info sc) (objs_info sc')) scs scs'"
proof (induction scs arbitrary: scs')
  case Nil
  then show ?case by simp
next
  case (Cons sc scs)
  from Cons.prems obtain sc' rest where
    s: "py_bind (scene_files_of E pf aux (scene_num sc)) (\<lambda>scene_files.
           py_bind (add_obj_traj E sc scene_files)
             (\<lambda>sc1.
               case cam of
                 None \<Rightarrow> Inr sc1
               | Some (cam_part_files, cam_part_scene_nums) \<Rightarrow>
                   py_bind (list_index cam_part_scene_nums [pn, scene_num sc1]) (\<lambda>i.
                   py_bind (py_index cam_part_files i) (add_cam_traj E sc1)))) = Inr sc'"
    and r: "add_trajectories_loop E pn pf aux cam scs = Inr rest"
    and e: "scs' = sc' # rest"
    by (auto split: sum.splits)
  from s obtain sf sc1 where
    f: "scene_files_of E pf aux (scene_num sc) = Inr sf"
    and a: "add_obj_traj E sc sf = Inr sc1"
    and b: "(case cam of
                 None \<Rightarrow> Inr sc1
               | Some (cam_part_files, cam_part_scene_nums) \<Rightarrow>
                   py_bind (list_index cam_part_scene_nums [pn, scene_num sc1]) (\<lambda>i.
                   py_bind (py_index cam_part_files i) (add_cam_traj E sc1))) = Inr sc'"
    by (auto simp: py_bind_def split: sum.splits)
  from b have "objs_info sc' = objs_info sc1"
    by (auto simp: py_bind_def add_cam_traj_objs split: option.splits sum.splits)
  with add_obj_traj_iff [OF a] f Cons.IH [OF r] e show ?case by auto
qed

lemma map_raising_index:
  "map_raising (\<lambda>x. py_index x 1) psn = Inr aux \<Longrightarrow> aux = map (\<lambda>x. x ! 1) psn"
proof (induction psn arbitrary: aux)
  case Nil
  then show ?case by simp
next
  case (Cons x psn)
  then show ?case
    by (auto simp: py_index_def split: sum.splits if_splits)
qed

lemma select_files_eq:
  "map fst (filter snd (zip pf (map (\<lambda>x. x = n) (map (\<lambda>x. x ! 1) psn)))) =
     map fst (filter (\<lambda>(f, x). x ! 1 = n) (zip pf psn))"
proof (induction pf arbitrary: psn)
  case Nil
  then show ?case by simp
next
  case (Cons f pf)
  then show ?case by (cases psn) auto
qed

lemma scene_files_of_exact:
  assumes "\<forall>x \<in> set psn. fits_int64 (x ! 1)" and "fits_int64 n"
  shows "scene_files_of E pf (map (\<lambda>x. x ! 1) psn) n =
           Inr (map fst (filter (\<lambda>(f, x). x ! 1 = n) (zip pf psn)))"
proof -
  from assms have "np_equal E (map (\<lambda>x. x ! 1) psn) n =
      Inr (map (\<lambda>x. x = n) (map (\<lambda>x. x ! 1) psn))"
    unfolding np_equal_def by (simp add: list_all_iff)
  then show ?thesis
    unfolding scene_files_of_def select_files_eq [symmetric] by (simp add: py_bind_def)
qed

text \<open>
  Claim C2 fails on the files that are candidates for a scene, and on the text that is
  searched for the name. \<open>add_trajectories\<close> keeps, for a scene, the participant's files
  whose identity has the scene's number, and only these are searched. In the first world
  a participant packs the same object in scenes 1 and 2; the first of all the
  participant's files whose filename contains the name is the file of scene 1, with time
  stamps 0 and 40: the claim attaches it to the object of scene 2 as well, the code
  attaches to the object of scene 2 the file of scene 2, with time stamps 5 and 70.
  \<open>add_obj_traj\<close> looks for the name in the path of a file, directories included. In the
  second world no filename contains the name \<open>P1\<close> of the object, so the claim leaves its
  trajectory empty; the path of the file contains it, and the code attaches the file.
\<close>

theorem trajectory_other_scene_counterexample:
  "file_crawler (os_walk ex_two_scenes_env) ''data'' ''trajectory'' False =
     Inr ([''data/P1/S1/003 cracker box_trajectory.json'',
           ''data/P1/S2/003 cracker box_trajectory.json''], [[1, 1], [1, 2]])
   \<and> claimed_traj_file [''data/P1/S1/003 cracker box_trajectory.json'',
                         ''data/P1/S2/003 cracker box_trajectory.json'']
       (ex_obj ''003 cracker box'' []) = Some ''data/P1/S1/003 cracker box_trajectory.json''
   \<and> load_trajectory ex_two_scenes_env ''data/P1/S1/003 cracker box_trajectory.json'' =
       Inr [ex_entry 0, ex_entry 40]
   \<and> boxed_init ex_two_scenes_env (Some ''data'') False =
       Inr (ex_dataset [ex_scene 1 [ex_obj ''003 cracker box'' [0, 40]],
                        ex_scene 2 [ex_obj ''003 cracker box'' [5, 70]]])
   \<and> file_crawler (os_walk ex_dir_name_env) ''data'' ''trajectory'' False =
       Inr ([''data/P1/S1/banana_trajectory.json''], [[1, 1]])
   \<and> claimed_traj_file [''data/P1/S1/banana_trajectory.json''] (ex_obj ''P1'' []) = None
   \<and> boxed_init ex_dir_name_env (Some ''data'') False =
       Inr (ex_dataset [ex_scene 1 [ex_obj ''P1'' [0, 40]]])"
  by code_simp

text \<open>
  Claim C2 as amended, for scene numbers that fit a signed 64-bit integer (where numpy
  compares them exactly): for every scene of a participant and every object in it, the
  candidates are the participant's object-trajectory files whose identity has the scene's
  number, in their order; the object gets the poses of the records of the first candidate
  whose path contains the object's name, appended in file order, and is unchanged when
  there is none. The candidates are the same list for every object of the scene: a file
  matched for one object stays a candidate for the next.
\<close>

theorem add_trajectories_matching:
  assumes "add_trajectories E part part_files part_scene_nums cam = Inr part'"
    and "\<forall>x \<in> set part_scene_nums. fits_int64 (x ! 1)"
    and "k < length (scenes part)" and "fits_int64 (scene_num (scenes part ! k))"
    and "j < length (objs_info (scenes part ! k))"
  shows "length (scenes part') = length (scenes part)
     \<and> length (objs_info (scenes part' ! k)) = length (objs_info (scenes part ! k))
     \<and> (case find (py_in_str (name (objs_info (scenes part ! k) ! j)))
               (map fst (filter (\<lambda>(f, n). n ! 1 = scene_num (scenes part ! k))
                  (zip part_files part_scene_nums))) of
          None \<Rightarrow> objs_info (scenes part' ! k) ! j = objs_info (scenes part ! k) ! j
        | Some f \<Rightarrow>
            (\<exists>data poses. load_trajectory E f = Inr data
               \<and> map_raising
                    (\<lambda>d. PoseWithTime E (json_rotation d) (json_translation d)
                            (json_timeStamp d)) data = Inr poses
               \<and> map time_stamp poses = map json_timeStamp data
               \<and> objs_info (scenes part' ! k) ! j =
                   (objs_info (scenes part ! k) ! j)
                     \<lparr>trajectory := trajectory (objs_info (scenes part ! k) ! j) @ poses\<rparr>))"
proof -
  let ?sf = "\<lambda>sc. map fst (filter (\<lambda>(f, n). n ! 1 = scene_num sc) (zip part_files part_scene_nums))"
  let ?ob = "objs_info (scenes part ! k) ! j" and ?ob' = "objs_info (scenes part' ! k) ! j"
  from assms(1) obtain aux scs where
    aux: "map_raising (\<lambda>x. py_index x 1) part_scene_nums = Inr aux"
    and loop: "add_trajectories_loop E (part_num part) part_files aux cam (scenes part) = Inr scs"
    and p': "part' = part\<lparr>scenes := scs\<rparr>"
    by (auto simp: add_trajectories_def py_bind_def split: sum.splits)
  have aux_eq: "aux = map (\<lambda>x. x ! 1) part_scene_nums" by (rule map_raising_index [OF aux])
  have all: "list_all2 (\<lambda>sc sc'. \<exists>sf.
        scene_files_of E part_files aux (scene_num sc) = Inr sf \<and>
        list_all2 (\<lambda>ob ob'. add_obj_traj_files E ob sf = Inr ob')
          (objs_info sc) (objs_info sc')) (scenes part) (scenes part')"
    using add_trajectories_loop_objs [OF loop] by (simp add: p')
  then have len: "length (scenes part') = length (scenes part)"
    by (simp add: list_all2_lengthD)
  from all assms(3) have "\<exists>sf.
        scene_files_of E part_files aux (scene_num (scenes part ! k)) = Inr sf \<and>
        list_all2 (\<lambda>ob ob'. add_obj_traj_files E ob sf = Inr ob')
          (objs_info (scenes part ! k)) (objs_info (scenes part' ! k))"
    by (rule list_all2_nthD)
  moreover have "scene_files_of E part_files aux (scene_num (scenes part ! k))
      = Inr (?sf (scenes part ! k))"
    unfolding aux_eq by (rule scene_files_of_exact [OF assms(2) assms(4)])
  ultimately have sc: "list_all2 (\<lambda>ob ob'. add_obj_traj_files E ob (?sf (scenes part ! k)) = Inr ob')
          (objs_info (scenes part ! k)) (objs_info (scenes part' ! k))"
    by auto
  then have len2: "length (objs_info (scenes part' ! k)) = length (objs_info (scenes part ! k))"
    by (simp add: list_all2_lengthD)
  from sc assms(5) have m: "add_obj_traj_files E ?ob (?sf (scenes part ! k)) = Inr ?ob'"
    by (rule list_all2_nthD)
  have "case find (py_in_str (name ?ob)) (?sf (scenes part ! k)) of
          None \<Rightarrow> ?ob' = ?ob
        | Some f \<Rightarrow>
            (\<exists>data poses. load_trajectory E f = Inr data
               \<and> poses_of E data = Inr poses
               \<and> map time_stamp poses = map json_timeStamp data
               \<and> ?ob' = ?ob\<lparr>trajectory := trajectory ?ob @ poses\<rparr>)"
  proof (cases "find (py_in_str (name ?ob)) (?sf (scenes part ! k))")
    case None
    with m show ?thesis by (simp add: add_obj_traj_files_eq)
  next
    case (Some f)
    with m have "add_traj E ?ob f = Inr ?ob'" by (simp add: add_obj_traj_files_eq)
    then obtain data ps where "load_trajectory E f = Inr data" "poses_of E data = Inr ps"
      "?ob' = ?ob\<lparr>trajectory := trajectory ?ob @ ps\<rparr>"
      unfolding add_traj_eq by blast
    with poses_of_fields [of E data ps] Some show ?thesis by auto
  qed
  with len len2 show ?thesis by simp
qed

theorem add_trajectories_matching_witness:
  "add_trajectories ex_traj_env (ex_part []) [''data/P1/S1/003 cracker box_trajectory.json'']
      [[1, 1]] None = Inr (ex_part [0, 40])
   \<and> (\<exists>data poses.
        load_trajectory ex_traj_env ''data/P1/S1/003 cracker box_trajectory.json'' = Inr data
        \<and> map_raising
             (\<lambda>d. PoseWithTime ex_traj_env (json_rotation d) (json_translation d)
                     (json_timeStamp d)) data = Inr poses
        \<and> map time_stamp poses = map json_timeStamp data
        \<and> objs_info (scenes (ex_part [0, 40]) ! 0) ! 1
            = (objs_info (scenes (ex_part []) ! 0) ! 1)
                \<lparr>trajectory := trajectory (objs_info (scenes (ex_part []) ! 0) ! 1) @ poses\<rparr>)"
proof -
  let ?F = "''data/P1/S1/003 cracker box_trajectory.json''"
  have r: "add_trajectories ex_traj_env (ex_part []) [?F] [[1, 1]] None = Inr (ex_part [0, 40])"
    by code_simp
  have n: "\<forall>x \<in> set [[1, 1 :: int]]. fits_int64 (x ! 1)" by (simp add: fits_int64_def)
  have k: "0 < length (scenes (ex_part []))" by code_simp
  have s: "fits_int64 (scene_num (scenes (ex_part []) ! 0))" by code_simp
  have j: "1 < length (objs_info (scenes (ex_part []) ! 0))" by code_simp
  have f: "find (py_in_str (name (objs_info (scenes (ex_part []) ! 0) ! 1)))
             (map fst (filter (\<lambda>(f, n). n ! 1 = scene_num (scenes (ex_part []) ! 0))
                (zip [?F] [[1, 1]]))) = Some ?F"
    by code_simp
  from add_trajectories_matching [OF r n k s j] r show ?thesis
    unfolding f by simp
qed

lemma add_cam_traj_nonempty:
  "load_trajectory E f = Inr (d # data) \<Longrightarrow> add_cam_traj E sc f = Inl AttributeError"
  by (simp add: add_cam_traj_def py_bind_def dict_getattr_def)

text \<open>
  Claim C3, at the input where the code departs from it. With \<open>load_cam_traj\<close> set and a
  camera trajectory file of one record, \<open>add_cam_traj\<close> reads the attribute \<open>rotation\<close> of
  the record, a dict, and the construction ends with \<open>AttributeError\<close>; \<open>add_traj\<close> reads
  the same record by subscript. Without \<open>load_cam_traj\<close> the file is not read and the
  scene's camera trajectory is empty, as the claim says.
\<close>

theorem camera_trajectory_attribute_error:
  "boxed_init ex_camera_env (Some ''data'') True = Inl AttributeError
   \<and> boxed_init ex_camera_env (Some ''data'') False = Inr (ex_dataset [ex_scene 1 []])"
  by code_simp

theorem camera_trajectory_attribute_error_witness:
  "boxed_init ex_camera_env (Some ''data'') True = Inl AttributeError"
  using camera_trajectory_attribute_error by (rule conjunct1)

section \<open>Properties of \<open>get_grasp_poses\<close>\<close>

lemma target_objs_of_error: "target_objs_of objs = Inl e \<Longrightarrow> e = SystemExit 1"
  by (auto simp: target_objs_of_def split: py_value.splits if_splits)

text \<open>
  Claim C7 fails on what the failure is. An invalid grasp type and an unknown object name
  both reach \<open>exit(1)\<close>: the call raises \<open>SystemExit\<close> with status 1, the exception that
  ends the program, and no error of the query alone.
\<close>

theorem get_grasp_poses_exit_counterexample:
  "get_grasp_poses (ex_dataset []) ''grab'' (PyStr ''all'') = Inl (SystemExit 1)
   \<and> get_grasp_poses (ex_dataset []) ''pick'' (PyStr ''009 gelatin box'') = Inl (SystemExit 1)
   \<and> exits_program (SystemExit 1)"
  by code_simp

text \<open>
  Claim C7 as amended: every call of \<open>get_grasp_poses\<close> with a grasp type other than
  \<open>pick\<close> and \<open>place\<close>, with a string that is neither \<open>all\<close> nor a name of \<open>ALL_OBJS\<close>, with
  a list that has an element that is not such a name, or with a value that is neither a
  string nor a list, raises \<open>SystemExit\<close> with status 1, which ends the program.
\<close>

theorem get_grasp_poses_invalid:
  assumes "grasp_type \<notin> {''pick'', ''place''}
     \<or> (\<exists>s. objs = PyStr s \<and> s \<noteq> ''all'' \<and> s \<notin> set ALL_OBJS)
     \<or> (\<exists>elems. objs = PyList elems \<and> (\<exists>elem \<in> set elems. elem \<notin> PyStr ` set ALL_OBJS))
     \<or> objs = PyOther"
  shows "get_grasp_poses ds grasp_type objs = Inl (SystemExit 1) \<and> exits_program (SystemExit 1)"
proof -
  have str: "elem \<in> PyStr ` set ALL_OBJS \<longleftrightarrow> is_str elem \<and> str_of elem \<in> set ALL_OBJS" for elem
    by (cases elem) auto
  have "get_grasp_poses ds grasp_type objs = Inl (SystemExit 1)"
  proof (cases "grasp_type \<in> {''pick'', ''place''}")
    case False
    then show ?thesis by (simp add: get_grasp_poses_def)
  next
    case True
    with assms have "target_objs_of objs = Inl (SystemExit 1)"
      by (auto simp: target_objs_of_def list_all_iff str)
    with True show ?thesis by (simp add: get_grasp_poses_def py_bind_def)
  qed
  then show ?thesis by (simp add: exits_program_def)
qed

theorem get_grasp_poses_invalid_witness:
  "get_grasp_poses (ex_dataset []) ''pick'' (PyList [PyStr ''011 banana'', PyStr ''kiwi''])
     = Inl (SystemExit 1)"
proof -
  have "PyStr ''kiwi'' \<notin> PyStr ` set ALL_OBJS" by (simp add: ALL_OBJS_def)
  then have "\<exists>elems. PyList [PyStr ''011 banana'', PyStr ''kiwi''] = PyList elems
      \<and> (\<exists>elem \<in> set elems. elem \<notin> PyStr ` set ALL_OBJS)"
    by simp
  with get_grasp_poses_invalid
         [of "''pick''" "PyList [PyStr ''011 banana'', PyStr ''kiwi'']" "ex_dataset []"]
  show ?thesis by blast
qed

end
